theory Spec2Isabelle
  imports Main "HOL-Library.Word"
begin

section \<open>The OTLP gRPC adapter of apm-server (beater/otlp/grpc.go)\<close>

text \<open>
  The file registers the OTLP trace and metrics receivers with a gRPC server, wraps the
  downstream \<open>otel.Consumer\<close> in a \<open>monitoredConsumer\<close> that counts requests and responses,
  keeps the most recently created \<open>monitoredConsumer\<close> in a package-level slot, and
  reports the downstream consumer's statistics to a monitoring visitor.

  Everything the file calls but does not define (the downstream consumer, the receiver
  framework, the logger, the visitor) is a parameter of the model or a record of the
  calls made on it. Calls run one at a time: the mutex around the slot and the atomicity
  of the counters are not modelled.

  A call of the downstream consumer either returns or panics. The two consume
  operations are where the file defers work, so they are where a panic is modelled: it
  passes through the operation, and the deferred call still runs.
\<close>

subsection \<open>Values of the imported packages\<close>

text \<open>
  Values that the adapter only passes on. A \<open>context.Context\<close> is either the one that
  \<open>context.Background()\<close> returns or some other context; payloads, processors, loggers
  and servers are told apart by a number.
\<close>

datatype Context = context_Background | Context nat
datatype Traces = Traces nat
datatype Metrics = Metrics nat
datatype BatchProcessor = BatchProcessor nat
datatype Logger = Logger nat
datatype grpc_Server = grpc_Server nat

text \<open>
  Go's \<open>error\<close>: \<open>None\<close> is \<open>nil\<close>. \<open>errors.Wrap\<close> of github.com/pkg/errors returns \<open>nil\<close>
  for a \<open>nil\<close> error and otherwise a new error that keeps the cause and the message;
  its \<open>Error()\<close> is the message, a colon and a space, and the cause's \<open>Error()\<close>.
\<close>

datatype error = errorString string | withMessage error string

fun error_Error :: "error \<Rightarrow> string" where
  "error_Error (errorString m) = m"
| "error_Error (withMessage cause m) = m @ '': '' @ error_Error cause"

fun errors_Cause :: "error \<Rightarrow> error" where
  "errors_Cause (errorString m) = errorString m"
| "errors_Cause (withMessage cause m) = errors_Cause cause"

fun errors_Wrap :: "error option \<Rightarrow> string \<Rightarrow> error option" where
  "errors_Wrap None m = None"
| "errors_Wrap (Some err) m = Some (withMessage err m)"

text \<open>
  How a call ends: it returns a value, or it panics with a value (here its text) and
  the panic unwinds the caller.
\<close>

datatype 'a outcome = Returns 'a | Panics string

text \<open>
  A pointer obtained from a composite literal \<open>&T{...}\<close> is its address together with the
  struct it points to; the adapter never assigns to a field afterwards.
\<close>

datatype 'a ptr = Ptr (addr: nat) (deref: 'a)

record otel_Consumer =
  Processor :: BatchProcessor

record ConsumerStats =
  UnsupportedMetricsDropped :: "64 word"

record monitoredConsumer =
  consumer :: "otel_Consumer ptr"
  logger :: Logger

text \<open>The receivers that \<open>trace.New\<close> and \<open>metrics.New\<close> build from a name and a consumer.\<close>

datatype trace_Receiver = trace_New string monitoredConsumer
datatype metrics_Receiver = metrics_New string monitoredConsumer

text \<open>A log record: the logger, the fields added by \<open>With\<close>, the severity, the message.\<close>

datatype Level = DebugLevel | InfoLevel | WarnLevel | ErrorLevel
datatype Field = logp_Error error

record log_record =
  record_logger :: Logger
  record_fields :: "Field list"
  record_level :: Level
  record_msg :: string

subsection \<open>Counters and registries\<close>

text \<open>
  The four result ids of \<open>monitoringKeys\<close>. A counter is a \<open>monitoring.Int\<close>, a 64-bit
  integer whose \<open>Inc\<close> adds one, wraps, and returns the new value; \<open>of_nat n\<close> is the
  counter value \<open>n\<close>.
\<close>

datatype ResultID =
  IDRequestCount | IDResponseCount | IDResponseErrorsCount | IDResponseValidCount

definition monitoringKeys :: "ResultID list" where
  "monitoringKeys =
     [IDRequestCount, IDResponseCount, IDResponseErrorsCount, IDResponseValidCount]"

text \<open>
  A monitoring map is a Go map from result ids to counters. The maps of this package
  hold a counter for each of \<open>monitoringKeys\<close> and are only ever indexed with these
  four ids, so a map is a function from the four ids to the counters' values.
\<close>

type_synonym MonitoringMap = "ResultID \<Rightarrow> 64 word"

datatype Mode = Reported | Full
datatype Option = monitoring_Report | monitoring_DoNotReport

text \<open>
  A registry has a name and the variables registered under it, in order: the counter of
  a result id, or a function variable (a name and the options it is registered with).
  The only function this package registers is the package-level
  \<open>collectMetricsMonitoring\<close>.
\<close>

datatype Var = IntVar ResultID | FuncVar string "Option list"

record Registry =
  registry_name :: string
  registry_vars :: "Var list"

definition monitoring_NewRegistry :: "string \<Rightarrow> Registry" where
  "monitoring_NewRegistry name = \<lparr>registry_name = name, registry_vars = []\<rparr>"

definition monitoring_NewFunc :: "Registry \<Rightarrow> string \<Rightarrow> Option list \<Rightarrow> Registry" where
  "monitoring_NewFunc r name opts = r\<lparr>registry_vars := registry_vars r @ [FuncVar name opts]\<rparr>"

text \<open>
  Modelled from the spec: \<open>request.MonitoringMapForRegistry\<close> (beater/request) is not in
  the source. The spec's Counter Registry has, for each telemetry kind, one group that
  maps each of the four result ids to an integer counter, created once at process start
  and exposed by the monitoring exporter as four named counters per group. So the
  function registers one counter per id under the registry and returns the map from ids
  to counters, all zero.
\<close>

definition MonitoringMapForRegistry :: "Registry \<Rightarrow> ResultID list \<Rightarrow> Registry \<times> MonitoringMap" where
  "MonitoringMapForRegistry r ids =
     (r\<lparr>registry_vars := registry_vars r @ map IntVar ids\<rparr>, \<lambda>k. 0)"

subsection \<open>Effects and the state of the package\<close>

text \<open>
  What a call does to the world outside its own frame, in the order it does it: a
  counter increment with the value that \<open>Inc\<close> returned, a call of the downstream
  consumer with the way it ended, a log record, a write of the current-consumer slot, a
  registration call with its result.
\<close>

datatype group = gRPCMetrics | gRPCTraces

datatype effect =
    Inc group ResultID "64 word"
  | Call_ConsumeTraces "otel_Consumer ptr" Context Traces "error option outcome"
  | Call_ConsumeMetrics "otel_Consumer ptr" Context Metrics "error option outcome"
  | Call_Stats "otel_Consumer ptr"
  | Log log_record
  | Store_current "monitoredConsumer option"
  | Call_RegisterTraceReceiver Context trace_Receiver grpc_Server "error option"
  | Call_RegisterMetricsReceiver Context metrics_Receiver grpc_Server "error option"

text \<open>
  The code this file calls: the methods of \<open>otel.Consumer\<close> and the registration
  functions of \<open>otlpreceiver\<close> (always called with \<open>nil\<close> as their last argument). Each
  acts on a state \<open>'w\<close> of its own, which the adapter cannot see.
\<close>

record 'w env =
  otel_ConsumeTraces ::
    "otel_Consumer ptr \<Rightarrow> Context \<Rightarrow> Traces \<Rightarrow> 'w \<Rightarrow> error option outcome \<times> 'w"
  otel_ConsumeMetrics ::
    "otel_Consumer ptr \<Rightarrow> Context \<Rightarrow> Metrics \<Rightarrow> 'w \<Rightarrow> error option outcome \<times> 'w"
  otel_Stats :: "otel_Consumer ptr \<Rightarrow> 'w \<Rightarrow> ConsumerStats"
  otlpreceiver_RegisterTraceReceiver ::
    "Context \<Rightarrow> trace_Receiver \<Rightarrow> grpc_Server \<Rightarrow> 'w \<Rightarrow> error option \<times> 'w"
  otlpreceiver_RegisterMetricsReceiver ::
    "Context \<Rightarrow> metrics_Receiver \<Rightarrow> grpc_Server \<Rightarrow> 'w \<Rightarrow> error option \<times> 'w"

text \<open>
  The package-level variables, the next free address, the state of the called code and
  the effects so far (oldest first).
\<close>

record 'w state =
  gRPCMetricsRegistry :: Registry
  gRPCMetricsMonitoringMap :: MonitoringMap
  gRPCTracesRegistry :: Registry
  gRPCTracesMonitoringMap :: MonitoringMap
  currentMonitoredConsumer :: "monitoredConsumer option"
  next_addr :: nat
  world :: 'w
  effects :: "effect list"

definition emit :: "effect \<Rightarrow> 'w state \<Rightarrow> 'w state" where
  "emit e s = s\<lparr>effects := effects s @ [e]\<rparr>"

text \<open>Package initialisation: the \<open>var\<close> block in declaration order, then \<open>init\<close>.\<close>

definition package_init :: "'w \<Rightarrow> 'w state" where
  "package_init w =
     (let (metricsRegistry, metricsMap) =
            MonitoringMapForRegistry
              (monitoring_NewRegistry ''apm-server.otlp.grpc.metrics'') monitoringKeys;
          (tracesRegistry, tracesMap) =
            MonitoringMapForRegistry
              (monitoring_NewRegistry ''apm-server.otlp.grpc.traces'') monitoringKeys
      in \<lparr>gRPCMetricsRegistry = monitoring_NewFunc metricsRegistry ''consumer'' [monitoring_Report],
          gRPCMetricsMonitoringMap = metricsMap,
          gRPCTracesRegistry = tracesRegistry,
          gRPCTracesMonitoringMap = tracesMap,
          currentMonitoredConsumer = None,
          next_addr = 0,
          world = w,
          effects = []\<rparr>)"

text \<open>
  \<open>gRPCTracesMonitoringMap[k].Inc()\<close> and \<open>gRPCMetricsMonitoringMap[k].Inc()\<close>: the counter
  is incremented, and the effect records the value read back from the counter.
\<close>

definition gRPCTracesMonitoringMap_Inc :: "ResultID \<Rightarrow> 'w state \<Rightarrow> 'w state" where
  "gRPCTracesMonitoringMap_Inc k s =
     (let s' = s\<lparr>gRPCTracesMonitoringMap :=
                  (gRPCTracesMonitoringMap s)(k := gRPCTracesMonitoringMap s k + 1)\<rparr>
      in emit (Inc gRPCTraces k (gRPCTracesMonitoringMap s' k)) s')"

definition gRPCMetricsMonitoringMap_Inc :: "ResultID \<Rightarrow> 'w state \<Rightarrow> 'w state" where
  "gRPCMetricsMonitoringMap_Inc k s =
     (let s' = s\<lparr>gRPCMetricsMonitoringMap :=
                  (gRPCMetricsMonitoringMap s)(k := gRPCMetricsMonitoringMap s k + 1)\<rparr>
      in emit (Inc gRPCMetrics k (gRPCMetricsMonitoringMap s' k)) s')"

text \<open>\<open>logger.With(fields...).Error(msg)\<close>.\<close>

definition logger_With_Error :: "Logger \<Rightarrow> Field list \<Rightarrow> string \<Rightarrow> 'w state \<Rightarrow> 'w state" where
  "logger_With_Error l fs msg s =
     emit (Log \<lparr>record_logger = l, record_fields = fs,
                record_level = ErrorLevel, record_msg = msg\<rparr>) s"

text \<open>Calls of the downstream consumer: the called code runs on its own state.\<close>

definition consumer_ConsumeTraces ::
    "'w env \<Rightarrow> otel_Consumer ptr \<Rightarrow> Context \<Rightarrow> Traces \<Rightarrow> 'w state \<Rightarrow>
       error option outcome \<times> 'w state" where
  "consumer_ConsumeTraces E p ctx traces s =
     (let (r, w) = otel_ConsumeTraces E p ctx traces (world s)
      in (r, emit (Call_ConsumeTraces p ctx traces r) (s\<lparr>world := w\<rparr>)))"

definition consumer_ConsumeMetrics ::
    "'w env \<Rightarrow> otel_Consumer ptr \<Rightarrow> Context \<Rightarrow> Metrics \<Rightarrow> 'w state \<Rightarrow>
       error option outcome \<times> 'w state" where
  "consumer_ConsumeMetrics E p ctx metrics s =
     (let (r, w) = otel_ConsumeMetrics E p ctx metrics (world s)
      in (r, emit (Call_ConsumeMetrics p ctx metrics r) (s\<lparr>world := w\<rparr>)))"

definition consumer_Stats :: "'w env \<Rightarrow> otel_Consumer ptr \<Rightarrow> 'w state \<Rightarrow> ConsumerStats \<times> 'w state" where
  "consumer_Stats E p s = (otel_Stats E p (world s), emit (Call_Stats p) s)"

subsection \<open>monitoredConsumer\<close>

text \<open>
  \<open>ConsumeTraces\<close> and \<open>ConsumeMetrics\<close>. The increment of the response counter is
  deferred right after the request counter is incremented, so it runs last on every
  way out: after the return value is set on the two return paths, and while the panic
  unwinds when the downstream call panics, in which case neither the error counter nor
  the valid counter is incremented and nothing is logged. The receiver is a consumer
  that exists (not a \<open>nil\<close> pointer).
\<close>

definition ConsumeTraces ::
    "'w env \<Rightarrow> monitoredConsumer \<Rightarrow> Context \<Rightarrow> Traces \<Rightarrow> 'w state \<Rightarrow>
       error option outcome \<times> 'w state" where
  "ConsumeTraces E c ctx traces s =
     (let s1 = gRPCTracesMonitoringMap_Inc IDRequestCount s;
          deferred = gRPCTracesMonitoringMap_Inc IDResponseCount;
          (r, s2) = consumer_ConsumeTraces E (consumer c) ctx traces s1
      in case r of
           Panics v \<Rightarrow> (Panics v, deferred s2)
         | Returns (Some e) \<Rightarrow>
             (let s3 = gRPCTracesMonitoringMap_Inc IDResponseErrorsCount s2;
                  s4 = logger_With_Error (logger c) [logp_Error e]
                         ''ConsumeTraces returned an error'' s3
              in (Returns (Some e), deferred s4))
         | Returns None \<Rightarrow>
             (let s3 = gRPCTracesMonitoringMap_Inc IDResponseValidCount s2
              in (Returns None, deferred s3)))"

definition ConsumeMetrics ::
    "'w env \<Rightarrow> monitoredConsumer \<Rightarrow> Context \<Rightarrow> Metrics \<Rightarrow> 'w state \<Rightarrow>
       error option outcome \<times> 'w state" where
  "ConsumeMetrics E c ctx metrics s =
     (let s1 = gRPCMetricsMonitoringMap_Inc IDRequestCount s;
          deferred = gRPCMetricsMonitoringMap_Inc IDResponseCount;
          (r, s2) = consumer_ConsumeMetrics E (consumer c) ctx metrics s1
      in case r of
           Panics v \<Rightarrow> (Panics v, deferred s2)
         | Returns (Some e) \<Rightarrow>
             (let s3 = gRPCMetricsMonitoringMap_Inc IDResponseErrorsCount s2;
                  s4 = logger_With_Error (logger c) [logp_Error e]
                         ''ConsumeMetrics returned an error'' s3
              in (Returns (Some e), deferred s4))
         | Returns None \<Rightarrow>
             (let s3 = gRPCMetricsMonitoringMap_Inc IDResponseValidCount s2
              in (Returns None, deferred s3)))"

subsection \<open>The visitor and the snapshot reporter\<close>

text \<open>
  A \<open>monitoring.Visitor\<close> is the list of calls made on it, oldest first.
  \<open>monitoring.ReportNamespace(V, name, f)\<close> is recorded with the calls that \<open>f\<close> makes,
  \<open>monitoring.ReportInt(V, name, value)\<close> with its name and value.
\<close>

datatype visit =
    OnRegistryStart
  | OnRegistryFinished
  | ReportNamespace string "visit list"
  | ReportInt string "64 word"

type_synonym Visitor = "visit list"

definition monitoring_ReportNamespace :: "Visitor \<Rightarrow> string \<Rightarrow> (Visitor \<Rightarrow> Visitor) \<Rightarrow> Visitor" where
  "monitoring_ReportNamespace V name f = V @ [ReportNamespace name (f [])]"

definition monitoring_ReportInt :: "Visitor \<Rightarrow> string \<Rightarrow> 64 word \<Rightarrow> Visitor" where
  "monitoring_ReportInt V name v = V @ [ReportInt name v]"

text \<open>The method \<open>(*monitoredConsumer).collectMetricsMonitoring\<close>; the mode is ignored.\<close>

definition monitoredConsumer_collectMetricsMonitoring ::
    "'w env \<Rightarrow> monitoredConsumer \<Rightarrow> Mode \<Rightarrow> Visitor \<Rightarrow> 'w state \<Rightarrow> Visitor \<times> 'w state" where
  "monitoredConsumer_collectMetricsMonitoring E c mode V s =
     (let V1 = V @ [OnRegistryStart];
          V2 = V1 @ [OnRegistryFinished];
          (stats, s1) = consumer_Stats E (consumer c) s;
          V3 = monitoring_ReportNamespace V2 ''consumer''
                 (\<lambda>V'. monitoring_ReportInt V' ''unsupported_dropped''
                          (UnsupportedMetricsDropped stats))
      in (V3, s1))"

text \<open>The slot: \<open>setCurrentMonitoredConsumer\<close> takes a pointer, which may be \<open>nil\<close>.\<close>

definition setCurrentMonitoredConsumer :: "monitoredConsumer option \<Rightarrow> 'w state \<Rightarrow> 'w state" where
  "setCurrentMonitoredConsumer c s =
     emit (Store_current c) (s\<lparr>currentMonitoredConsumer := c\<rparr>)"

text \<open>The package-level \<open>collectMetricsMonitoring\<close>, the function registered by \<open>init\<close>.\<close>

definition collectMetricsMonitoring ::
    "'w env \<Rightarrow> Mode \<Rightarrow> Visitor \<Rightarrow> 'w state \<Rightarrow> Visitor \<times> 'w state" where
  "collectMetricsMonitoring E mode V s =
     (case currentMonitoredConsumer s of
        Some c \<Rightarrow> monitoredConsumer_collectMetricsMonitoring E c mode V s
      | None \<Rightarrow> (V, s))"

subsection \<open>Registration\<close>

definition RegisterTraceReceiver ::
    "'w env \<Rightarrow> Context \<Rightarrow> trace_Receiver \<Rightarrow> grpc_Server \<Rightarrow> 'w state \<Rightarrow> error option \<times> 'w state" where
  "RegisterTraceReceiver E ctx r srv s =
     (let (err, w) = otlpreceiver_RegisterTraceReceiver E ctx r srv (world s)
      in (err, emit (Call_RegisterTraceReceiver ctx r srv err) (s\<lparr>world := w\<rparr>)))"

definition RegisterMetricsReceiver ::
    "'w env \<Rightarrow> Context \<Rightarrow> metrics_Receiver \<Rightarrow> grpc_Server \<Rightarrow> 'w state \<Rightarrow> error option \<times> 'w state" where
  "RegisterMetricsReceiver E ctx r srv s =
     (let (err, w) = otlpreceiver_RegisterMetricsReceiver E ctx r srv (world s)
      in (err, emit (Call_RegisterMetricsReceiver ctx r srv err) (s\<lparr>world := w\<rparr>)))"

text \<open>The consumer that \<open>RegisterGRPCServices\<close> builds: both structs are new.\<close>

definition new_monitoredConsumer :: "BatchProcessor \<Rightarrow> Logger \<Rightarrow> 'w state \<Rightarrow> monitoredConsumer" where
  "new_monitoredConsumer processor l s =
     \<lparr>consumer = Ptr (next_addr s) \<lparr>Processor = processor\<rparr>, logger = l\<rparr>"

definition RegisterGRPCServices ::
    "'w env \<Rightarrow> grpc_Server \<Rightarrow> BatchProcessor \<Rightarrow> Logger \<Rightarrow> 'w state \<Rightarrow> error option \<times> 'w state" where
  "RegisterGRPCServices E grpcServer processor l s =
     (let c = new_monitoredConsumer processor l s;
          s1 = s\<lparr>next_addr := Suc (next_addr s)\<rparr>;
          s2 = setCurrentMonitoredConsumer (Some c) s1;
          traceReceiver = trace_New ''otlp'' c;
          metricsReceiver = metrics_New ''otlp'' c;
          (err, s3) = RegisterTraceReceiver E context_Background traceReceiver grpcServer s2
      in case err of
           Some e \<Rightarrow> (errors_Wrap (Some e) ''failed to register OTLP trace receiver'', s3)
         | None \<Rightarrow>
             (let (err', s4) =
                    RegisterMetricsReceiver E context_Background metricsReceiver grpcServer s3
              in (case err' of
                    Some e \<Rightarrow>
                      (errors_Wrap (Some e) ''failed to register OTLP metrics receiver'', s4)
                  | None \<Rightarrow> (None, s4))))"

subsection \<open>Sequences of invocations\<close>

text \<open>
  The entry points as the rest of the server reaches them: registration, the two consume
  operations called by the receivers, and the reporter called by the exporter.
\<close>

datatype invocation =
    Invoke_RegisterGRPCServices grpc_Server BatchProcessor Logger
  | Invoke_ConsumeTraces monitoredConsumer Context Traces
  | Invoke_ConsumeMetrics monitoredConsumer Context Metrics
  | Invoke_collectMetricsMonitoring Mode Visitor

fun invoke :: "'w env \<Rightarrow> invocation \<Rightarrow> 'w state \<Rightarrow> 'w state" where
  "invoke E (Invoke_RegisterGRPCServices srv p l) s = snd (RegisterGRPCServices E srv p l s)"
| "invoke E (Invoke_ConsumeTraces c ctx traces) s = snd (ConsumeTraces E c ctx traces s)"
| "invoke E (Invoke_ConsumeMetrics c ctx metrics) s = snd (ConsumeMetrics E c ctx metrics s)"
| "invoke E (Invoke_collectMetricsMonitoring mode V) s = snd (collectMetricsMonitoring E mode V s)"

fun run :: "'w env \<Rightarrow> invocation list \<Rightarrow> 'w state \<Rightarrow> 'w state" where
  "run E [] s = s"
| "run E (i # is) s = run E is (invoke E i s)"

text \<open>The effects that a run added to the state it started from.\<close>

definition since :: "'w state \<Rightarrow> 'w state \<Rightarrow> effect list" where
  "since s s' = drop (length (effects s)) (effects s')"

text \<open>Counting the calls of the downstream consumer in a list of effects.\<close>

fun is_traces_call :: "effect \<Rightarrow> bool" where
  "is_traces_call (Call_ConsumeTraces p ctx traces err) = True"
| "is_traces_call e = False"

fun is_traces_failure :: "effect \<Rightarrow> bool" where
  "is_traces_failure (Call_ConsumeTraces p ctx traces (Returns (Some e))) = True"
| "is_traces_failure e = False"

fun is_traces_success :: "effect \<Rightarrow> bool" where
  "is_traces_success (Call_ConsumeTraces p ctx traces (Returns None)) = True"
| "is_traces_success e = False"

fun is_traces_panic :: "effect \<Rightarrow> bool" where
  "is_traces_panic (Call_ConsumeTraces p ctx traces (Panics v)) = True"
| "is_traces_panic e = False"

fun is_metrics_call :: "effect \<Rightarrow> bool" where
  "is_metrics_call (Call_ConsumeMetrics p ctx metrics err) = True"
| "is_metrics_call e = False"

fun is_metrics_failure :: "effect \<Rightarrow> bool" where
  "is_metrics_failure (Call_ConsumeMetrics p ctx metrics (Returns (Some e))) = True"
| "is_metrics_failure e = False"

fun is_metrics_success :: "effect \<Rightarrow> bool" where
  "is_metrics_success (Call_ConsumeMetrics p ctx metrics (Returns None)) = True"
| "is_metrics_success e = False"

fun is_metrics_panic :: "effect \<Rightarrow> bool" where
  "is_metrics_panic (Call_ConsumeMetrics p ctx metrics (Panics v)) = True"
| "is_metrics_panic e = False"

fun is_Invoke_ConsumeTraces :: "invocation \<Rightarrow> bool" where
  "is_Invoke_ConsumeTraces (Invoke_ConsumeTraces c ctx traces) = True"
| "is_Invoke_ConsumeTraces i = False"

fun is_Invoke_ConsumeMetrics :: "invocation \<Rightarrow> bool" where
  "is_Invoke_ConsumeMetrics (Invoke_ConsumeMetrics c ctx metrics) = True"
| "is_Invoke_ConsumeMetrics i = False"

definition count :: "('a \<Rightarrow> bool) \<Rightarrow> 'a list \<Rightarrow> nat" where
  "count P xs = length (filter P xs)"

text \<open>The counters agree with the downstream calls among the effects so far.\<close>

definition counted :: "'w state \<Rightarrow> bool" where
  "counted s \<longleftrightarrow>
     gRPCTracesMonitoringMap s IDRequestCount = of_nat (count is_traces_call (effects s)) \<and>
     gRPCTracesMonitoringMap s IDResponseCount = of_nat (count is_traces_call (effects s)) \<and>
     gRPCTracesMonitoringMap s IDResponseErrorsCount =
       of_nat (count is_traces_failure (effects s)) \<and>
     gRPCTracesMonitoringMap s IDResponseValidCount =
       of_nat (count is_traces_success (effects s)) \<and>
     gRPCMetricsMonitoringMap s IDRequestCount = of_nat (count is_metrics_call (effects s)) \<and>
     gRPCMetricsMonitoringMap s IDResponseCount = of_nat (count is_metrics_call (effects s)) \<and>
     gRPCMetricsMonitoringMap s IDResponseErrorsCount =
       of_nat (count is_metrics_failure (effects s)) \<and>
     gRPCMetricsMonitoringMap s IDResponseValidCount =
       of_nat (count is_metrics_success (effects s))"

text \<open>The log records and the counter increments among a list of effects.\<close>

fun logged :: "effect list \<Rightarrow> log_record list" where
  "logged [] = []"
| "logged (Log r # es) = r # logged es"
| "logged (e # es) = logged es"

fun incremented :: "effect list \<Rightarrow> (group \<times> ResultID) list" where
  "incremented [] = []"
| "incremented (Inc g k v # es) = (g, k) # incremented es"
| "incremented (e # es) = incremented es"

subsection \<open>A downstream consumer and a receiver framework to run the model on\<close>

text \<open>
  The state of the called code is the number of dropped metrics of each downstream
  consumer, by address. Consuming fails on payload number 0 and panics on payload
  number 1; a metrics payload that is consumed counts one dropped metric. Registering
  the trace receiver fails on server 0, registering the metrics receiver on server 1.
\<close>

definition fake_world :: "nat \<Rightarrow> 64 word" where
  "fake_world a = 0"

definition fake_ConsumeTraces ::
    "otel_Consumer ptr \<Rightarrow> Context \<Rightarrow> Traces \<Rightarrow> (nat \<Rightarrow> 64 word) \<Rightarrow>
       error option outcome \<times> (nat \<Rightarrow> 64 word)" where
  "fake_ConsumeTraces p ctx traces w =
     (case traces of Traces n \<Rightarrow>
        if n = 0 then (Returns (Some (errorString ''bad traces'')), w)
        else if n = 1 then (Panics ''nil map'', w)
        else (Returns None, w))"

definition fake_ConsumeMetrics ::
    "otel_Consumer ptr \<Rightarrow> Context \<Rightarrow> Metrics \<Rightarrow> (nat \<Rightarrow> 64 word) \<Rightarrow>
       error option outcome \<times> (nat \<Rightarrow> 64 word)" where
  "fake_ConsumeMetrics p ctx metrics w =
     (case metrics of Metrics n \<Rightarrow>
        if n = 0 then (Returns (Some (errorString ''bad metrics'')), w)
        else if n = 1 then (Panics ''nil map'', w)
        else (Returns None, w(addr p := w (addr p) + 1)))"

definition fake_Stats :: "otel_Consumer ptr \<Rightarrow> (nat \<Rightarrow> 64 word) \<Rightarrow> ConsumerStats" where
  "fake_Stats p w = \<lparr>UnsupportedMetricsDropped = w (addr p)\<rparr>"

definition fake_RegisterTraceReceiver ::
    "Context \<Rightarrow> trace_Receiver \<Rightarrow> grpc_Server \<Rightarrow> (nat \<Rightarrow> 64 word) \<Rightarrow> error option \<times> (nat \<Rightarrow> 64 word)" where
  "fake_RegisterTraceReceiver ctx r srv w =
     (case srv of grpc_Server n \<Rightarrow>
        if n = 0 then (Some (errorString ''no server''), w) else (None, w))"

definition fake_RegisterMetricsReceiver ::
    "Context \<Rightarrow> metrics_Receiver \<Rightarrow> grpc_Server \<Rightarrow> (nat \<Rightarrow> 64 word) \<Rightarrow> error option \<times> (nat \<Rightarrow> 64 word)" where
  "fake_RegisterMetricsReceiver ctx r srv w =
     (case srv of grpc_Server n \<Rightarrow>
        if n = 1 then (Some (errorString ''already registered''), w) else (None, w))"

definition fake_env :: "(nat \<Rightarrow> 64 word) env" where
  "fake_env =
     \<lparr>otel_ConsumeTraces = fake_ConsumeTraces,
      otel_ConsumeMetrics = fake_ConsumeMetrics,
      otel_Stats = fake_Stats,
      otlpreceiver_RegisterTraceReceiver = fake_RegisterTraceReceiver,
      otlpreceiver_RegisterMetricsReceiver = fake_RegisterMetricsReceiver\<rparr>"

definition consumer_A :: monitoredConsumer where
  "consumer_A = \<lparr>consumer = Ptr 0 \<lparr>Processor = BatchProcessor 1\<rparr>, logger = Logger 1\<rparr>"

definition consumer_B :: monitoredConsumer where
  "consumer_B = \<lparr>consumer = Ptr 1 \<lparr>Processor = BatchProcessor 2\<rparr>, logger = Logger 1\<rparr>"

section \<open>Properties\<close>

subsection \<open>What each operation does to the state\<close>

lemmas op_defs =
  ConsumeTraces_def ConsumeMetrics_def consumer_ConsumeTraces_def consumer_ConsumeMetrics_def
  gRPCTracesMonitoringMap_Inc_def gRPCMetricsMonitoringMap_Inc_def logger_With_Error_def
  emit_def collectMetricsMonitoring_def monitoredConsumer_collectMetricsMonitoring_def
  consumer_Stats_def monitoring_ReportNamespace_def monitoring_ReportInt_def
  setCurrentMonitoredConsumer_def RegisterTraceReceiver_def RegisterMetricsReceiver_def
  RegisterGRPCServices_def

lemmas fake_defs =
  fake_env_def fake_world_def fake_ConsumeTraces_def fake_ConsumeMetrics_def fake_Stats_def
  fake_RegisterTraceReceiver_def fake_RegisterMetricsReceiver_def consumer_A_def consumer_B_def
  new_monitoredConsumer_def package_init_def MonitoringMapForRegistry_def
  monitoring_NewRegistry_def monitoring_NewFunc_def monitoringKeys_def

lemma since_append: "effects s' = effects s @ es \<Longrightarrow> since s s' = es"
  by (simp add: since_def)

lemma count_Nil: "count P [] = 0" by (simp add: count_def)
lemma count_append: "count P (xs @ ys) = count P xs + count P ys" by (simp add: count_def)
lemma count_Cons: "count P (x # xs) = (if P x then Suc (count P xs) else count P xs)" by (simp add: count_def)

lemma ConsumeTraces_effects:
  "effects (snd (ConsumeTraces E c ctx traces s)) = effects s @
     (case fst (otel_ConsumeTraces E (consumer c) ctx traces (world s)) of
        Returns (Some e) \<Rightarrow>
          [Inc gRPCTraces IDRequestCount (gRPCTracesMonitoringMap s IDRequestCount + 1),
           Call_ConsumeTraces (consumer c) ctx traces (Returns (Some e)),
           Inc gRPCTraces IDResponseErrorsCount (gRPCTracesMonitoringMap s IDResponseErrorsCount + 1),
           Log \<lparr>record_logger = logger c, record_fields = [logp_Error e],
                 record_level = ErrorLevel, record_msg = ''ConsumeTraces returned an error''\<rparr>,
           Inc gRPCTraces IDResponseCount (gRPCTracesMonitoringMap s IDResponseCount + 1)]
      | Returns None \<Rightarrow>
          [Inc gRPCTraces IDRequestCount (gRPCTracesMonitoringMap s IDRequestCount + 1),
           Call_ConsumeTraces (consumer c) ctx traces (Returns None),
           Inc gRPCTraces IDResponseValidCount (gRPCTracesMonitoringMap s IDResponseValidCount + 1),
           Inc gRPCTraces IDResponseCount (gRPCTracesMonitoringMap s IDResponseCount + 1)]
      | Panics v \<Rightarrow>
          [Inc gRPCTraces IDRequestCount (gRPCTracesMonitoringMap s IDRequestCount + 1),
           Call_ConsumeTraces (consumer c) ctx traces (Panics v),
           Inc gRPCTraces IDResponseCount (gRPCTracesMonitoringMap s IDResponseCount + 1)])"
  by (simp add: op_defs Let_def case_prod_beta split: outcome.splits option.splits)

lemma ConsumeMetrics_effects:
  "effects (snd (ConsumeMetrics E c ctx metrics s)) = effects s @
     (case fst (otel_ConsumeMetrics E (consumer c) ctx metrics (world s)) of
        Returns (Some e) \<Rightarrow>
          [Inc gRPCMetrics IDRequestCount (gRPCMetricsMonitoringMap s IDRequestCount + 1),
           Call_ConsumeMetrics (consumer c) ctx metrics (Returns (Some e)),
           Inc gRPCMetrics IDResponseErrorsCount (gRPCMetricsMonitoringMap s IDResponseErrorsCount + 1),
           Log \<lparr>record_logger = logger c, record_fields = [logp_Error e],
                 record_level = ErrorLevel, record_msg = ''ConsumeMetrics returned an error''\<rparr>,
           Inc gRPCMetrics IDResponseCount (gRPCMetricsMonitoringMap s IDResponseCount + 1)]
      | Returns None \<Rightarrow>
          [Inc gRPCMetrics IDRequestCount (gRPCMetricsMonitoringMap s IDRequestCount + 1),
           Call_ConsumeMetrics (consumer c) ctx metrics (Returns None),
           Inc gRPCMetrics IDResponseValidCount (gRPCMetricsMonitoringMap s IDResponseValidCount + 1),
           Inc gRPCMetrics IDResponseCount (gRPCMetricsMonitoringMap s IDResponseCount + 1)]
      | Panics v \<Rightarrow>
          [Inc gRPCMetrics IDRequestCount (gRPCMetricsMonitoringMap s IDRequestCount + 1),
           Call_ConsumeMetrics (consumer c) ctx metrics (Panics v),
           Inc gRPCMetrics IDResponseCount (gRPCMetricsMonitoringMap s IDResponseCount + 1)])"
  by (simp add: op_defs Let_def case_prod_beta split: outcome.splits option.splits)

lemma ConsumeTraces_result:
  "fst (ConsumeTraces E c ctx traces s) = fst (otel_ConsumeTraces E (consumer c) ctx traces (world s))"
  by (simp add: op_defs Let_def case_prod_beta split: outcome.splits option.splits)

lemma ConsumeMetrics_result:
  "fst (ConsumeMetrics E c ctx metrics s) = fst (otel_ConsumeMetrics E (consumer c) ctx metrics (world s))"
  by (simp add: op_defs Let_def case_prod_beta split: outcome.splits option.splits)

lemma ConsumeTraces_traces_map:
  "gRPCTracesMonitoringMap (snd (ConsumeTraces E c ctx traces s)) =
     (case fst (otel_ConsumeTraces E (consumer c) ctx traces (world s)) of
        Returns (Some e) \<Rightarrow> (gRPCTracesMonitoringMap s)
          (IDRequestCount := gRPCTracesMonitoringMap s IDRequestCount + 1,
           IDResponseErrorsCount := gRPCTracesMonitoringMap s IDResponseErrorsCount + 1,
           IDResponseCount := gRPCTracesMonitoringMap s IDResponseCount + 1)
      | Returns None \<Rightarrow> (gRPCTracesMonitoringMap s)
          (IDRequestCount := gRPCTracesMonitoringMap s IDRequestCount + 1,
           IDResponseValidCount := gRPCTracesMonitoringMap s IDResponseValidCount + 1,
           IDResponseCount := gRPCTracesMonitoringMap s IDResponseCount + 1)
      | Panics v \<Rightarrow> (gRPCTracesMonitoringMap s)
          (IDRequestCount := gRPCTracesMonitoringMap s IDRequestCount + 1,
           IDResponseCount := gRPCTracesMonitoringMap s IDResponseCount + 1))"
  by (simp add: op_defs Let_def case_prod_beta split: outcome.splits option.splits)

lemma ConsumeMetrics_metrics_map:
  "gRPCMetricsMonitoringMap (snd (ConsumeMetrics E c ctx metrics s)) =
     (case fst (otel_ConsumeMetrics E (consumer c) ctx metrics (world s)) of
        Returns (Some e) \<Rightarrow> (gRPCMetricsMonitoringMap s)
          (IDRequestCount := gRPCMetricsMonitoringMap s IDRequestCount + 1,
           IDResponseErrorsCount := gRPCMetricsMonitoringMap s IDResponseErrorsCount + 1,
           IDResponseCount := gRPCMetricsMonitoringMap s IDResponseCount + 1)
      | Returns None \<Rightarrow> (gRPCMetricsMonitoringMap s)
          (IDRequestCount := gRPCMetricsMonitoringMap s IDRequestCount + 1,
           IDResponseValidCount := gRPCMetricsMonitoringMap s IDResponseValidCount + 1,
           IDResponseCount := gRPCMetricsMonitoringMap s IDResponseCount + 1)
      | Panics v \<Rightarrow> (gRPCMetricsMonitoringMap s)
          (IDRequestCount := gRPCMetricsMonitoringMap s IDRequestCount + 1,
           IDResponseCount := gRPCMetricsMonitoringMap s IDResponseCount + 1))"
  by (simp add: op_defs Let_def case_prod_beta split: outcome.splits option.splits)

lemma ConsumeTraces_frame:
  "gRPCMetricsMonitoringMap (snd (ConsumeTraces E c ctx traces s)) = gRPCMetricsMonitoringMap s"
  "gRPCMetricsRegistry (snd (ConsumeTraces E c ctx traces s)) = gRPCMetricsRegistry s"
  "gRPCTracesRegistry (snd (ConsumeTraces E c ctx traces s)) = gRPCTracesRegistry s"
  "currentMonitoredConsumer (snd (ConsumeTraces E c ctx traces s)) = currentMonitoredConsumer s"
  "next_addr (snd (ConsumeTraces E c ctx traces s)) = next_addr s"
  by (simp_all add: op_defs Let_def case_prod_beta split: outcome.splits option.splits)

lemma ConsumeMetrics_frame:
  "gRPCTracesMonitoringMap (snd (ConsumeMetrics E c ctx metrics s)) = gRPCTracesMonitoringMap s"
  "gRPCMetricsRegistry (snd (ConsumeMetrics E c ctx metrics s)) = gRPCMetricsRegistry s"
  "gRPCTracesRegistry (snd (ConsumeMetrics E c ctx metrics s)) = gRPCTracesRegistry s"
  "currentMonitoredConsumer (snd (ConsumeMetrics E c ctx metrics s)) = currentMonitoredConsumer s"
  "next_addr (snd (ConsumeMetrics E c ctx metrics s)) = next_addr s"
  by (simp_all add: op_defs Let_def case_prod_beta split: outcome.splits option.splits)

lemma collect_frame:
  "gRPCTracesMonitoringMap (snd (collectMetricsMonitoring E mode V s)) = gRPCTracesMonitoringMap s"
  "gRPCMetricsMonitoringMap (snd (collectMetricsMonitoring E mode V s)) = gRPCMetricsMonitoringMap s"
  "gRPCMetricsRegistry (snd (collectMetricsMonitoring E mode V s)) = gRPCMetricsRegistry s"
  "gRPCTracesRegistry (snd (collectMetricsMonitoring E mode V s)) = gRPCTracesRegistry s"
  "currentMonitoredConsumer (snd (collectMetricsMonitoring E mode V s)) = currentMonitoredConsumer s"
  "world (snd (collectMetricsMonitoring E mode V s)) = world s"
  by (simp_all add: op_defs Let_def case_prod_beta split: option.splits)

lemma collect_effects:
  "effects (snd (collectMetricsMonitoring E mode V s)) = effects s @
     (case currentMonitoredConsumer s of Some c \<Rightarrow> [Call_Stats (consumer c)] | None \<Rightarrow> [])"
  by (simp add: op_defs Let_def case_prod_beta split: option.splits)

lemma Register_frame:
  "gRPCTracesMonitoringMap (snd (RegisterGRPCServices E srv p l s)) = gRPCTracesMonitoringMap s"
  "gRPCMetricsMonitoringMap (snd (RegisterGRPCServices E srv p l s)) = gRPCMetricsMonitoringMap s"
  "gRPCMetricsRegistry (snd (RegisterGRPCServices E srv p l s)) = gRPCMetricsRegistry s"
  "gRPCTracesRegistry (snd (RegisterGRPCServices E srv p l s)) = gRPCTracesRegistry s"
  by (simp_all add: op_defs Let_def case_prod_beta split: option.splits)

lemma Register_current:
  "currentMonitoredConsumer (snd (RegisterGRPCServices E srv p l s)) = Some (new_monitoredConsumer p l s)"
  by (simp add: op_defs new_monitoredConsumer_def Let_def case_prod_beta split: option.splits)

lemma Register_effects:
  "effects (snd (RegisterGRPCServices E srv p l s)) = effects s @
     (let c = new_monitoredConsumer p l s;
          t = otlpreceiver_RegisterTraceReceiver E context_Background (trace_New ''otlp'' c) srv (world s)
      in case fst t of
           Some e \<Rightarrow> [Store_current (Some c),
                      Call_RegisterTraceReceiver context_Background (trace_New ''otlp'' c) srv (Some e)]
         | None \<Rightarrow> [Store_current (Some c),
                      Call_RegisterTraceReceiver context_Background (trace_New ''otlp'' c) srv None,
                      Call_RegisterMetricsReceiver context_Background (metrics_New ''otlp'' c) srv
                        (fst (otlpreceiver_RegisterMetricsReceiver E context_Background
                                (metrics_New ''otlp'' c) srv (snd t)))])"
  by (simp add: op_defs new_monitoredConsumer_def Let_def case_prod_beta split: option.splits)

lemma Register_result:
  "fst (RegisterGRPCServices E srv p l s) =
     (let c = new_monitoredConsumer p l s;
          t = otlpreceiver_RegisterTraceReceiver E context_Background (trace_New ''otlp'' c) srv (world s)
      in case fst t of
           Some e \<Rightarrow> Some (withMessage e ''failed to register OTLP trace receiver'')
         | None \<Rightarrow>
             (case fst (otlpreceiver_RegisterMetricsReceiver E context_Background
                          (metrics_New ''otlp'' c) srv (snd t)) of
                Some e \<Rightarrow> Some (withMessage e ''failed to register OTLP metrics receiver'')
              | None \<Rightarrow> None))"
  by (simp add: op_defs new_monitoredConsumer_def Let_def case_prod_beta split: option.splits)

lemma Register_world:
  "world (snd (RegisterGRPCServices E srv p l s)) =
     (let c = new_monitoredConsumer p l s;
          t = otlpreceiver_RegisterTraceReceiver E context_Background (trace_New ''otlp'' c) srv (world s)
      in case fst t of
           Some e \<Rightarrow> snd t
         | None \<Rightarrow> snd (otlpreceiver_RegisterMetricsReceiver E context_Background
                          (metrics_New ''otlp'' c) srv (snd t)))"
  by (simp add: op_defs new_monitoredConsumer_def Let_def case_prod_beta split: option.splits)

lemma registries_invoke:
  "gRPCMetricsRegistry (invoke E i s) = gRPCMetricsRegistry s"
  "gRPCTracesRegistry (invoke E i s) = gRPCTracesRegistry s"
  by (cases i; simp add: ConsumeTraces_frame ConsumeMetrics_frame collect_frame Register_frame)+

lemma registries_run:
  "gRPCMetricsRegistry (run E ops s) = gRPCMetricsRegistry s"
  "gRPCTracesRegistry (run E ops s) = gRPCTracesRegistry s"
  by (induction ops arbitrary: s) (simp_all add: registries_invoke)

lemma collect_visitor:
  "fst (collectMetricsMonitoring E mode V s) = V @
     (case currentMonitoredConsumer s of
        Some c \<Rightarrow>
          [OnRegistryStart, OnRegistryFinished,
           ReportNamespace ''consumer''
             [ReportInt ''unsupported_dropped''
                (UnsupportedMetricsDropped (otel_Stats E (consumer c) (world s)))]]
      | None \<Rightarrow> [])"
  by (simp add: op_defs Let_def case_prod_beta split: option.splits)

lemma collect_Some:
  "currentMonitoredConsumer s = Some c \<Longrightarrow>
   collectMetricsMonitoring E mode V s =
     (V @ [OnRegistryStart, OnRegistryFinished,
           ReportNamespace ''consumer''
             [ReportInt ''unsupported_dropped''
                (UnsupportedMetricsDropped (otel_Stats E (consumer c) (world s)))]],
      emit (Call_Stats (consumer c)) s)"
  by (simp add: op_defs Let_def)

lemma collect_None:
  "currentMonitoredConsumer s = None \<Longrightarrow> collectMetricsMonitoring E mode V s = (V, s)"
  by (simp add: collectMetricsMonitoring_def)

lemma setCurrent_current:
  "currentMonitoredConsumer (setCurrentMonitoredConsumer c s) = c"
  "world (setCurrentMonitoredConsumer c s) = world s"
  by (simp_all add: setCurrentMonitoredConsumer_def emit_def)

lemma Register_next_addr:
  "next_addr (snd (RegisterGRPCServices E srv p l s)) = Suc (next_addr s)"
  by (simp add: op_defs Let_def case_prod_beta split: option.splits)

text \<open>Counting.\<close>

lemma count_traces_split:
  "count is_traces_call es =
     count is_traces_failure es + count is_traces_success es + count is_traces_panic es"
proof (induction es)
  case Nil
  show ?case by (simp add: count_Nil)
next
  case (Cons e es)
  then show ?case
    by (cases e rule: is_traces_failure.cases) (simp_all add: count_Cons)
qed

lemma count_metrics_split:
  "count is_metrics_call es =
     count is_metrics_failure es + count is_metrics_success es + count is_metrics_panic es"
proof (induction es)
  case Nil
  show ?case by (simp add: count_Nil)
next
  case (Cons e es)
  then show ?case
    by (cases e rule: is_metrics_failure.cases) (simp_all add: count_Cons)
qed

lemma counted_init: "counted (package_init w)"
  by (simp add: counted_def package_init_def MonitoringMapForRegistry_def count_Nil)

lemma counted_ConsumeTraces: "counted s \<Longrightarrow> counted (snd (ConsumeTraces E c ctx traces s))"
  by (simp add: counted_def ConsumeTraces_effects ConsumeTraces_traces_map ConsumeTraces_frame
        count_append count_Cons count_Nil split: outcome.splits option.splits)

lemma counted_ConsumeMetrics: "counted s \<Longrightarrow> counted (snd (ConsumeMetrics E c ctx metrics s))"
  by (simp add: counted_def ConsumeMetrics_effects ConsumeMetrics_metrics_map ConsumeMetrics_frame
        count_append count_Cons count_Nil split: outcome.splits option.splits)

lemma counted_collect: "counted s \<Longrightarrow> counted (snd (collectMetricsMonitoring E mode V s))"
  by (simp add: counted_def collect_effects collect_frame
        count_append count_Cons count_Nil split: outcome.splits option.splits)

lemma counted_Register: "counted s \<Longrightarrow> counted (snd (RegisterGRPCServices E srv p l s))"
  by (simp add: counted_def Register_effects Register_frame Let_def
        count_append count_Cons count_Nil split: outcome.splits option.splits)

lemma counted_invoke: "counted s \<Longrightarrow> counted (invoke E i s)"
  by (cases i) (simp_all add: counted_ConsumeTraces counted_ConsumeMetrics counted_collect counted_Register)

lemma counted_run: "counted s \<Longrightarrow> counted (run E ops s)"
  by (induction ops arbitrary: s) (simp_all add: counted_invoke)

lemma calls_invoke:
  "count is_traces_call (effects (invoke E i s)) =
     count is_traces_call (effects s) + (if is_Invoke_ConsumeTraces i then 1 else 0)"
  "count is_metrics_call (effects (invoke E i s)) =
     count is_metrics_call (effects s) + (if is_Invoke_ConsumeMetrics i then 1 else 0)"
  by (cases i; simp add: ConsumeTraces_effects ConsumeMetrics_effects collect_effects Register_effects
        Let_def count_append count_Cons count_Nil split: outcome.splits option.splits)+

lemma calls_run:
  "count is_traces_call (effects (run E ops s)) =
     count is_traces_call (effects s) + count is_Invoke_ConsumeTraces ops"
  "count is_metrics_call (effects (run E ops s)) =
     count is_metrics_call (effects s) + count is_Invoke_ConsumeMetrics ops"
  by (induction ops arbitrary: s) (simp_all add: calls_invoke count_Cons count_Nil)

subsection \<open>Call counters\<close>

text \<open>
  C1. Start from package initialisation and run any finite sequence of invocations of
  the package (consume calls of both kinds, registrations and reports, in any order).
  Let \<open>N\<^sub>t\<close> be the number of \<open>ConsumeTraces\<close> calls in it, \<open>K\<^sub>t\<close> the number of times the
  downstream consumer's \<open>ConsumeTraces\<close> returned an error and \<open>P\<^sub>t\<close> the number of times
  it panicked; the remaining \<open>N\<^sub>t - K\<^sub>t - P\<^sub>t\<close> downstream calls succeeded. Then, as 64-bit
  counter values, the traces group has RequestCount = \<open>N\<^sub>t\<close>, ResponseCount = \<open>N\<^sub>t\<close>,
  ResponseErrorsCount = \<open>K\<^sub>t\<close> and ResponseValidCount = \<open>N\<^sub>t - K\<^sub>t - P\<^sub>t\<close>. So for \<open>N\<^sub>t\<close>
  calls of which \<open>K\<^sub>t\<close> fail and \<open>N\<^sub>t - K\<^sub>t\<close> succeed (no call panics, \<open>P\<^sub>t = 0\<close>) the four
  counters are \<open>N\<^sub>t\<close>, \<open>N\<^sub>t\<close>, \<open>K\<^sub>t\<close> and \<open>N\<^sub>t - K\<^sub>t\<close>. The same holds for the metrics
  group with the \<open>ConsumeMetrics\<close> calls, and neither group counts the other kind's
  calls.
\<close>

theorem counters_after_calls:
  "let s' = run E ops (package_init w);
       N\<^sub>t = count is_Invoke_ConsumeTraces ops;
       K\<^sub>t = count is_traces_failure (effects s');
       P\<^sub>t = count is_traces_panic (effects s');
       N\<^sub>m = count is_Invoke_ConsumeMetrics ops;
       K\<^sub>m = count is_metrics_failure (effects s');
       P\<^sub>m = count is_metrics_panic (effects s')
   in K\<^sub>t + P\<^sub>t \<le> N\<^sub>t \<and> count is_traces_success (effects s') = N\<^sub>t - K\<^sub>t - P\<^sub>t \<and>
      gRPCTracesMonitoringMap s' IDRequestCount = of_nat N\<^sub>t \<and>
      gRPCTracesMonitoringMap s' IDResponseCount = of_nat N\<^sub>t \<and>
      gRPCTracesMonitoringMap s' IDResponseErrorsCount = of_nat K\<^sub>t \<and>
      gRPCTracesMonitoringMap s' IDResponseValidCount = of_nat (N\<^sub>t - K\<^sub>t - P\<^sub>t) \<and>
      K\<^sub>m + P\<^sub>m \<le> N\<^sub>m \<and> count is_metrics_success (effects s') = N\<^sub>m - K\<^sub>m - P\<^sub>m \<and>
      gRPCMetricsMonitoringMap s' IDRequestCount = of_nat N\<^sub>m \<and>
      gRPCMetricsMonitoringMap s' IDResponseCount = of_nat N\<^sub>m \<and>
      gRPCMetricsMonitoringMap s' IDResponseErrorsCount = of_nat K\<^sub>m \<and>
      gRPCMetricsMonitoringMap s' IDResponseValidCount = of_nat (N\<^sub>m - K\<^sub>m - P\<^sub>m)"
proof -
  define s' where "s' = run E ops (package_init w)"
  have c: "counted s'"
    unfolding s'_def by (rule counted_run [OF counted_init])
  have e0: "effects (package_init w) = []"
    by (simp add: package_init_def MonitoringMapForRegistry_def)
  have nt: "count is_traces_call (effects s') = count is_Invoke_ConsumeTraces ops"
    unfolding s'_def by (simp add: calls_run e0 count_Nil)
  have nm: "count is_metrics_call (effects s') = count is_Invoke_ConsumeMetrics ops"
    unfolding s'_def by (simp add: calls_run e0 count_Nil)
  have st: "count is_traces_success (effects s') =
      count is_Invoke_ConsumeTraces ops - count is_traces_failure (effects s') -
      count is_traces_panic (effects s')"
    using count_traces_split [of "effects s'"] nt by simp
  have sm: "count is_metrics_success (effects s') =
      count is_Invoke_ConsumeMetrics ops - count is_metrics_failure (effects s') -
      count is_metrics_panic (effects s')"
    using count_metrics_split [of "effects s'"] nm by simp
  have kt: "count is_traces_failure (effects s') + count is_traces_panic (effects s') \<le>
      count is_Invoke_ConsumeTraces ops"
    using count_traces_split [of "effects s'"] nt by simp
  have km: "count is_metrics_failure (effects s') + count is_metrics_panic (effects s') \<le>
      count is_Invoke_ConsumeMetrics ops"
    using count_metrics_split [of "effects s'"] nm by simp
  show ?thesis
    using c kt km unfolding Let_def s'_def [symmetric] counted_def nt nm st [symmetric] sm [symmetric]
    by simp
qed

subsection \<open>Errors and log records of the consume operations\<close>

text \<open>
  C2. \<open>ConsumeTraces\<close> ends exactly as the downstream consumer's \<open>ConsumeTraces\<close> ended.
  When the downstream call returned an error, the call returns the same error, not
  wrapped, and emits exactly one log record, of error severity, whose only field carries
  that error. When the downstream call succeeded, the call returns no error and emits
  no log record. (When the downstream call panicked, the panic passes through and
  nothing is logged.) The same holds for \<open>ConsumeMetrics\<close>.
\<close>

theorem consume_returns_downstream_error:
  "fst (ConsumeTraces E c ctx traces s) =
     fst (otel_ConsumeTraces E (consumer c) ctx traces (world s)) \<and>
   logged (since s (snd (ConsumeTraces E c ctx traces s))) =
     (case fst (otel_ConsumeTraces E (consumer c) ctx traces (world s)) of
        Returns (Some e) \<Rightarrow>
          [\<lparr>record_logger = logger c, record_fields = [logp_Error e],
            record_level = ErrorLevel, record_msg = ''ConsumeTraces returned an error''\<rparr>]
      | Returns None \<Rightarrow> []
      | Panics v \<Rightarrow> []) \<and>
   fst (ConsumeMetrics E c ctx metrics s) =
     fst (otel_ConsumeMetrics E (consumer c) ctx metrics (world s)) \<and>
   logged (since s (snd (ConsumeMetrics E c ctx metrics s))) =
     (case fst (otel_ConsumeMetrics E (consumer c) ctx metrics (world s)) of
        Returns (Some e) \<Rightarrow>
          [\<lparr>record_logger = logger c, record_fields = [logp_Error e],
            record_level = ErrorLevel, record_msg = ''ConsumeMetrics returned an error''\<rparr>]
      | Returns None \<Rightarrow> []
      | Panics v \<Rightarrow> [])"
  by (simp add: ConsumeTraces_result ConsumeMetrics_result
        since_append [OF ConsumeTraces_effects] since_append [OF ConsumeMetrics_effects]
      split: outcome.splits option.splits)

subsection \<open>Order of the effects of a consume operation\<close>

text \<open>
  C6, as the code has it. On both return paths of \<open>ConsumeTraces\<close> the effects are, in
  this order: the increment of RequestCount, the call of the downstream consumer, the
  increment of ResponseErrorsCount (followed by the log record) when the downstream call
  returned an error or of ResponseValidCount when it succeeded, and last the deferred
  increment of ResponseCount. This holds for every context and every behaviour of the
  downstream consumer, so also when the downstream call returns an error early because
  the context was cancelled. When the downstream call panics, the effects are the
  increment of RequestCount, the call, and the deferred increment of ResponseCount:
  neither ResponseErrorsCount nor ResponseValidCount is incremented. Each increment is
  a real one: \<open>Inc\<close> returns the counter's old value plus one, and the counters after the
  call are the old ones with exactly these increments applied. All effects are in the
  state in which the call ends. The same holds for \<open>ConsumeMetrics\<close> on the metrics group.
\<close>

theorem consume_order:
  "since s (snd (ConsumeTraces E c ctx traces s)) =
     (case fst (otel_ConsumeTraces E (consumer c) ctx traces (world s)) of
        Returns (Some e) \<Rightarrow>
          [Inc gRPCTraces IDRequestCount (gRPCTracesMonitoringMap s IDRequestCount + 1),
           Call_ConsumeTraces (consumer c) ctx traces (Returns (Some e)),
           Inc gRPCTraces IDResponseErrorsCount (gRPCTracesMonitoringMap s IDResponseErrorsCount + 1),
           Log \<lparr>record_logger = logger c, record_fields = [logp_Error e],
                 record_level = ErrorLevel, record_msg = ''ConsumeTraces returned an error''\<rparr>,
           Inc gRPCTraces IDResponseCount (gRPCTracesMonitoringMap s IDResponseCount + 1)]
      | Returns None \<Rightarrow>
          [Inc gRPCTraces IDRequestCount (gRPCTracesMonitoringMap s IDRequestCount + 1),
           Call_ConsumeTraces (consumer c) ctx traces (Returns None),
           Inc gRPCTraces IDResponseValidCount (gRPCTracesMonitoringMap s IDResponseValidCount + 1),
           Inc gRPCTraces IDResponseCount (gRPCTracesMonitoringMap s IDResponseCount + 1)]
      | Panics v \<Rightarrow>
          [Inc gRPCTraces IDRequestCount (gRPCTracesMonitoringMap s IDRequestCount + 1),
           Call_ConsumeTraces (consumer c) ctx traces (Panics v),
           Inc gRPCTraces IDResponseCount (gRPCTracesMonitoringMap s IDResponseCount + 1)]) \<and>
   effects (snd (ConsumeTraces E c ctx traces s)) =
     effects s @ since s (snd (ConsumeTraces E c ctx traces s)) \<and>
   gRPCTracesMonitoringMap (snd (ConsumeTraces E c ctx traces s)) =
     (case fst (otel_ConsumeTraces E (consumer c) ctx traces (world s)) of
        Returns (Some e) \<Rightarrow> (gRPCTracesMonitoringMap s)
          (IDRequestCount := gRPCTracesMonitoringMap s IDRequestCount + 1,
           IDResponseErrorsCount := gRPCTracesMonitoringMap s IDResponseErrorsCount + 1,
           IDResponseCount := gRPCTracesMonitoringMap s IDResponseCount + 1)
      | Returns None \<Rightarrow> (gRPCTracesMonitoringMap s)
          (IDRequestCount := gRPCTracesMonitoringMap s IDRequestCount + 1,
           IDResponseValidCount := gRPCTracesMonitoringMap s IDResponseValidCount + 1,
           IDResponseCount := gRPCTracesMonitoringMap s IDResponseCount + 1)
      | Panics v \<Rightarrow> (gRPCTracesMonitoringMap s)
          (IDRequestCount := gRPCTracesMonitoringMap s IDRequestCount + 1,
           IDResponseCount := gRPCTracesMonitoringMap s IDResponseCount + 1)) \<and>
   since s (snd (ConsumeMetrics E c ctx metrics s)) =
     (case fst (otel_ConsumeMetrics E (consumer c) ctx metrics (world s)) of
        Returns (Some e) \<Rightarrow>
          [Inc gRPCMetrics IDRequestCount (gRPCMetricsMonitoringMap s IDRequestCount + 1),
           Call_ConsumeMetrics (consumer c) ctx metrics (Returns (Some e)),
           Inc gRPCMetrics IDResponseErrorsCount (gRPCMetricsMonitoringMap s IDResponseErrorsCount + 1),
           Log \<lparr>record_logger = logger c, record_fields = [logp_Error e],
                 record_level = ErrorLevel, record_msg = ''ConsumeMetrics returned an error''\<rparr>,
           Inc gRPCMetrics IDResponseCount (gRPCMetricsMonitoringMap s IDResponseCount + 1)]
      | Returns None \<Rightarrow>
          [Inc gRPCMetrics IDRequestCount (gRPCMetricsMonitoringMap s IDRequestCount + 1),
           Call_ConsumeMetrics (consumer c) ctx metrics (Returns None),
           Inc gRPCMetrics IDResponseValidCount (gRPCMetricsMonitoringMap s IDResponseValidCount + 1),
           Inc gRPCMetrics IDResponseCount (gRPCMetricsMonitoringMap s IDResponseCount + 1)]
      | Panics v \<Rightarrow>
          [Inc gRPCMetrics IDRequestCount (gRPCMetricsMonitoringMap s IDRequestCount + 1),
           Call_ConsumeMetrics (consumer c) ctx metrics (Panics v),
           Inc gRPCMetrics IDResponseCount (gRPCMetricsMonitoringMap s IDResponseCount + 1)]) \<and>
   effects (snd (ConsumeMetrics E c ctx metrics s)) =
     effects s @ since s (snd (ConsumeMetrics E c ctx metrics s)) \<and>
   gRPCMetricsMonitoringMap (snd (ConsumeMetrics E c ctx metrics s)) =
     (case fst (otel_ConsumeMetrics E (consumer c) ctx metrics (world s)) of
        Returns (Some e) \<Rightarrow> (gRPCMetricsMonitoringMap s)
          (IDRequestCount := gRPCMetricsMonitoringMap s IDRequestCount + 1,
           IDResponseErrorsCount := gRPCMetricsMonitoringMap s IDResponseErrorsCount + 1,
           IDResponseCount := gRPCMetricsMonitoringMap s IDResponseCount + 1)
      | Returns None \<Rightarrow> (gRPCMetricsMonitoringMap s)
          (IDRequestCount := gRPCMetricsMonitoringMap s IDRequestCount + 1,
           IDResponseValidCount := gRPCMetricsMonitoringMap s IDResponseValidCount + 1,
           IDResponseCount := gRPCMetricsMonitoringMap s IDResponseCount + 1)
      | Panics v \<Rightarrow> (gRPCMetricsMonitoringMap s)
          (IDRequestCount := gRPCMetricsMonitoringMap s IDRequestCount + 1,
           IDResponseCount := gRPCMetricsMonitoringMap s IDResponseCount + 1))"
  by (simp add: since_append [OF ConsumeTraces_effects] since_append [OF ConsumeMetrics_effects]
        ConsumeTraces_effects ConsumeMetrics_effects
        ConsumeTraces_traces_map ConsumeMetrics_metrics_map)

text \<open>
  C6 says that the increment of ResponseErrorsCount or of ResponseValidCount comes
  between the downstream call and the deferred increment on every exit path. After a
  registration, on a payload on which the downstream consumer panics, the call of the
  registered consumer ends with that panic, its effects are the RequestCount increment,
  the downstream call and the ResponseCount increment, and both ResponseErrorsCount and
  ResponseValidCount are still 0.
\<close>

theorem consume_order_counterexample:
  "currentMonitoredConsumer
     (snd (RegisterGRPCServices fake_env (grpc_Server 2) (BatchProcessor 1) (Logger 1)
             (package_init fake_world))) = Some consumer_A \<and>
   fst (ConsumeTraces fake_env consumer_A (Context 1) (Traces 1)
     (snd (RegisterGRPCServices fake_env (grpc_Server 2) (BatchProcessor 1) (Logger 1)
             (package_init fake_world)))) = Panics ''nil map'' \<and>
   since
     (snd (RegisterGRPCServices fake_env (grpc_Server 2) (BatchProcessor 1) (Logger 1)
             (package_init fake_world)))
     (snd (ConsumeTraces fake_env consumer_A (Context 1) (Traces 1)
        (snd (RegisterGRPCServices fake_env (grpc_Server 2) (BatchProcessor 1) (Logger 1)
             (package_init fake_world))))) =
     [Inc gRPCTraces IDRequestCount 1,
      Call_ConsumeTraces (consumer consumer_A) (Context 1) (Traces 1) (Panics ''nil map''),
      Inc gRPCTraces IDResponseCount 1] \<and>
   map (gRPCTracesMonitoringMap
          (snd (ConsumeTraces fake_env consumer_A (Context 1) (Traces 1)
             (snd (RegisterGRPCServices fake_env (grpc_Server 2) (BatchProcessor 1) (Logger 1)
             (package_init fake_world))))))
     [IDRequestCount, IDResponseCount, IDResponseErrorsCount, IDResponseValidCount] =
     [1, 1, 0, 0]"
  by (simp add: ConsumeTraces_result since_append [OF ConsumeTraces_effects]
        ConsumeTraces_traces_map Register_current Register_frame Register_world fake_defs
        Let_def)

subsection \<open>The two counter groups are independent\<close>

text \<open>
  C7. \<open>ConsumeTraces\<close> leaves every counter of the metrics group unchanged, and all
  the counter increments it makes (three when the downstream call returns, two when it
  panics) are in the traces group; \<open>ConsumeMetrics\<close> leaves every counter of the traces
  group unchanged, and all the increments it makes are in the metrics group. This holds
  however the downstream call ends.
\<close>

theorem consume_frame:
  "gRPCMetricsMonitoringMap (snd (ConsumeTraces E c ctx traces s)) = gRPCMetricsMonitoringMap s \<and>
   map fst (incremented (since s (snd (ConsumeTraces E c ctx traces s)))) =
     (case fst (otel_ConsumeTraces E (consumer c) ctx traces (world s)) of
        Returns r \<Rightarrow> [gRPCTraces, gRPCTraces, gRPCTraces]
      | Panics v \<Rightarrow> [gRPCTraces, gRPCTraces]) \<and>
   gRPCTracesMonitoringMap (snd (ConsumeMetrics E c ctx metrics s)) = gRPCTracesMonitoringMap s \<and>
   map fst (incremented (since s (snd (ConsumeMetrics E c ctx metrics s)))) =
     (case fst (otel_ConsumeMetrics E (consumer c) ctx metrics (world s)) of
        Returns r \<Rightarrow> [gRPCMetrics, gRPCMetrics, gRPCMetrics]
      | Panics v \<Rightarrow> [gRPCMetrics, gRPCMetrics])"
  by (simp add: ConsumeTraces_frame ConsumeMetrics_frame
        since_append [OF ConsumeTraces_effects] since_append [OF ConsumeMetrics_effects]
      split: outcome.splits option.splits)

subsection \<open>Errors of registration\<close>

text \<open>
  C3, as the code has it. When registering the trace receiver fails with \<open>e\<close>,
  \<open>RegisterGRPCServices\<close> returns an error that wraps \<open>e\<close> with the message
  \<open>failed to register OTLP trace receiver\<close>, and the registration of the metrics
  receiver is not attempted: the only effects are the write of the slot and the failed
  call, and the state of the called code is as that call left it. When registering the
  trace receiver succeeds and registering the metrics receiver fails with \<open>e\<close>, it returns
  an error that wraps \<open>e\<close> with the message \<open>failed to register OTLP metrics receiver\<close>.
  Otherwise it returns no error.
\<close>

theorem register_errors:
  "let c = new_monitoredConsumer p l s;
       t = otlpreceiver_RegisterTraceReceiver E context_Background (trace_New ''otlp'' c) srv
             (world s);
       m = otlpreceiver_RegisterMetricsReceiver E context_Background (metrics_New ''otlp'' c) srv
             (snd t);
       ret = fst (RegisterGRPCServices E srv p l s);
       s' = snd (RegisterGRPCServices E srv p l s)
   in case fst t of
        Some e \<Rightarrow>
          ret = Some (withMessage e ''failed to register OTLP trace receiver'') \<and>
          map_option errors_Cause ret = Some (errors_Cause e) \<and>
          map_option error_Error ret =
            Some (''failed to register OTLP trace receiver: '' @ error_Error e) \<and>
          since s s' =
            [Store_current (Some c),
             Call_RegisterTraceReceiver context_Background (trace_New ''otlp'' c) srv (Some e)] \<and>
          world s' = snd t
      | None \<Rightarrow>
          (case fst m of
             Some e \<Rightarrow>
               ret = Some (withMessage e ''failed to register OTLP metrics receiver'') \<and>
               map_option errors_Cause ret = Some (errors_Cause e) \<and>
               map_option error_Error ret =
                 Some (''failed to register OTLP metrics receiver: '' @ error_Error e)
           | None \<Rightarrow> ret = None)"
  by (simp add: Let_def Register_result Register_world since_append [OF Register_effects]
      split: option.splits)

text \<open>
  The messages are not the ones that C3 quotes: on a server that rejects the trace
  receiver the returned error carries \<open>failed to register OTLP trace receiver\<close>, which
  is not the cause wrapped with \<open>failed to register trace receiver\<close>.
\<close>

theorem register_message_counterexample:
  "fst (fake_RegisterTraceReceiver context_Background (trace_New ''otlp'' consumer_A)
          (grpc_Server 0) fake_world) = Some (errorString ''no server'') \<and>
   fst (RegisterGRPCServices fake_env (grpc_Server 0) (BatchProcessor 1) (Logger 1)
          (package_init fake_world)) =
     Some (withMessage (errorString ''no server'') ''failed to register OTLP trace receiver'') \<and>
   fst (RegisterGRPCServices fake_env (grpc_Server 0) (BatchProcessor 1) (Logger 1)
          (package_init fake_world)) \<noteq>
     errors_Wrap (Some (errorString ''no server'')) ''failed to register trace receiver''"
  by (simp add: Register_result fake_defs Let_def)

subsection \<open>The snapshot reporter\<close>

text \<open>
  C4, as the code has it. The reporter reads the slot before it reports anything. When
  no consumer is installed it makes no call on the visitor, so it opens no report
  section, and it leaves the state unchanged. When a consumer is installed, the first
  calls it makes on the visitor are the start marker and the finish marker of the
  top-level section, with nothing between them. The reporter has no error result.
\<close>

theorem report_sections:
  "(currentMonitoredConsumer s = None \<longrightarrow> collectMetricsMonitoring E mode V s = (V, s)) \<and>
   (\<forall>c. currentMonitoredConsumer s = Some c \<longrightarrow>
      take (length V + 2) (fst (collectMetricsMonitoring E mode V s)) =
        V @ [OnRegistryStart, OnRegistryFinished])"
  by (simp add: collect_visitor collect_None)

text \<open>
  Both cases occur: after package initialisation no consumer is installed, and after
  a consumer has been stored the two markers come first.
\<close>

theorem report_sections_witness:
  "currentMonitoredConsumer (package_init fake_world) = None \<and>
   collectMetricsMonitoring fake_env Full [] (package_init fake_world) =
     ([], package_init fake_world) \<and>
   currentMonitoredConsumer (setCurrentMonitoredConsumer (Some consumer_A) (package_init fake_world)) =
     Some consumer_A \<and>
   take 2 (fst (collectMetricsMonitoring fake_env Full []
                  (setCurrentMonitoredConsumer (Some consumer_A) (package_init fake_world)))) =
     [OnRegistryStart, OnRegistryFinished]"
proof -
  let ?s0 = "package_init fake_world"
  let ?s1 = "setCurrentMonitoredConsumer (Some consumer_A) (package_init fake_world)"
  have a: "currentMonitoredConsumer ?s0 = None"
    by (simp add: package_init_def MonitoringMapForRegistry_def)
  have b: "currentMonitoredConsumer ?s1 = Some consumer_A"
    by (simp add: setCurrent_current)
  have 1: "collectMetricsMonitoring fake_env Full [] ?s0 = ([], ?s0)"
    using report_sections [of ?s0 fake_env Full "[]"] a by blast
  have 2: "take (length ([]::Visitor) + 2) (fst (collectMetricsMonitoring fake_env Full [] ?s1)) =
      [] @ [OnRegistryStart, OnRegistryFinished]"
    using report_sections [of ?s1 fake_env Full "[]"] b by blast
  show ?thesis
    using a b 1 2 by (simp add: numeral_2_eq_2)
qed

text \<open>
  C4 says that every invocation opens a top-level section. Right after package
  initialisation the reporter makes no call on the visitor at all.
\<close>

theorem report_sections_counterexample:
  "currentMonitoredConsumer (package_init fake_world) = None \<and>
   fst (collectMetricsMonitoring fake_env Full [] (package_init fake_world)) = []"
  by (simp add: collect_visitor fake_defs)

text \<open>
  C5. When a consumer is installed, the reporter calls \<open>Stats\<close> of that consumer's
  downstream consumer once and, after the two markers of the top-level section, reports
  one namespace named \<open>consumer\<close> that holds one integer named \<open>unsupported_dropped\<close>:
  the \<open>UnsupportedMetricsDropped\<close> of the statistics it read. The reporter has no error
  result, so nothing can reach the exporter as an error.
\<close>

theorem report_with_consumer:
  "currentMonitoredConsumer s = Some c \<Longrightarrow>
   collectMetricsMonitoring E mode V s =
     (V @ [OnRegistryStart, OnRegistryFinished,
           ReportNamespace ''consumer''
             [ReportInt ''unsupported_dropped''
                (UnsupportedMetricsDropped (otel_Stats E (consumer c) (world s)))]],
      emit (Call_Stats (consumer c)) s)"
  by (rule collect_Some)

text \<open>
  After a registration and one metrics payload that the downstream consumer counts as
  dropped, the reporter reports the value 1.
\<close>

theorem report_with_consumer_witness:
  "currentMonitoredConsumer
     (run fake_env
        [Invoke_RegisterGRPCServices (grpc_Server 2) (BatchProcessor 1) (Logger 1),
         Invoke_ConsumeMetrics consumer_A (Context 1) (Metrics 5)]
        (package_init fake_world)) = Some consumer_A \<and>
   fst (collectMetricsMonitoring fake_env Full []
     (run fake_env
        [Invoke_RegisterGRPCServices (grpc_Server 2) (BatchProcessor 1) (Logger 1),
         Invoke_ConsumeMetrics consumer_A (Context 1) (Metrics 5)]
        (package_init fake_world))) =
     [OnRegistryStart, OnRegistryFinished,
      ReportNamespace ''consumer'' [ReportInt ''unsupported_dropped'' 1]]"
proof -
  let ?s = "run fake_env
        [Invoke_RegisterGRPCServices (grpc_Server 2) (BatchProcessor 1) (Logger 1),
         Invoke_ConsumeMetrics consumer_A (Context 1) (Metrics 5)]
        (package_init fake_world)"
  have cur: "currentMonitoredConsumer ?s = Some consumer_A"
    by (simp add: ConsumeMetrics_frame Register_current fake_defs)
  have w: "world ?s 0 = 1"
    by (simp add: op_defs fake_defs Let_def)
  show ?thesis
    using cur w report_with_consumer [OF cur, of fake_env Full "[]"]
    by (simp add: fake_env_def fake_Stats_def consumer_A_def)
qed

subsection \<open>The current-consumer slot\<close>

text \<open>
  C8. After consumer \<open>A\<close> and then consumer \<open>B\<close> have been stored, the slot holds \<open>B\<close>:
  it is not empty, and it holds \<open>A\<close> only if \<open>A\<close> and \<open>B\<close> are the same consumer. The
  reporter then reads the statistics of \<open>B\<close>'s downstream consumer and of no other.
  The same holds for two calls of \<open>RegisterGRPCServices\<close>: the slot holds the consumer
  built by the second call, which differs from the one built by the first, and the
  reporter reads its downstream consumer's statistics.
\<close>

theorem current_last_write_wins:
  "let s' = setCurrentMonitoredConsumer (Some B) (setCurrentMonitoredConsumer (Some A) s);
       s1 = snd (RegisterGRPCServices E srv\<^sub>1 p\<^sub>1 l\<^sub>1 s);
       s2 = snd (RegisterGRPCServices E srv\<^sub>2 p\<^sub>2 l\<^sub>2 s1);
       c\<^sub>1 = new_monitoredConsumer p\<^sub>1 l\<^sub>1 s;
       c\<^sub>2 = new_monitoredConsumer p\<^sub>2 l\<^sub>2 s1
   in currentMonitoredConsumer s' = Some B \<and>
      currentMonitoredConsumer s' \<noteq> None \<and>
      (currentMonitoredConsumer s' = Some A) = (A = B) \<and>
      collectMetricsMonitoring E mode V s' =
        (V @ [OnRegistryStart, OnRegistryFinished,
              ReportNamespace ''consumer''
                [ReportInt ''unsupported_dropped''
                   (UnsupportedMetricsDropped (otel_Stats E (consumer B) (world s)))]],
         emit (Call_Stats (consumer B)) s') \<and>
      currentMonitoredConsumer s1 = Some c\<^sub>1 \<and>
      currentMonitoredConsumer s2 = Some c\<^sub>2 \<and>
      c\<^sub>2 \<noteq> c\<^sub>1 \<and>
      collectMetricsMonitoring E mode V s2 =
        (V @ [OnRegistryStart, OnRegistryFinished,
              ReportNamespace ''consumer''
                [ReportInt ''unsupported_dropped''
                   (UnsupportedMetricsDropped (otel_Stats E (consumer c\<^sub>2) (world s2)))]],
         emit (Call_Stats (consumer c\<^sub>2)) s2)"
proof -
  let ?s' = "setCurrentMonitoredConsumer (Some B) (setCurrentMonitoredConsumer (Some A) s)"
  let ?s1 = "snd (RegisterGRPCServices E srv\<^sub>1 p\<^sub>1 l\<^sub>1 s)"
  let ?s2 = "snd (RegisterGRPCServices E srv\<^sub>2 p\<^sub>2 l\<^sub>2 ?s1)"
  have a: "currentMonitoredConsumer ?s' = Some B"
    by (simp add: setCurrent_current)
  have w: "world ?s' = world s"
    by (simp add: setCurrent_current)
  have r: "collectMetricsMonitoring E mode V ?s' =
      (V @ [OnRegistryStart, OnRegistryFinished,
            ReportNamespace ''consumer''
              [ReportInt ''unsupported_dropped''
                 (UnsupportedMetricsDropped (otel_Stats E (consumer B) (world s)))]],
       emit (Call_Stats (consumer B)) ?s')"
    using collect_Some [OF a, of E mode V] by (simp only: w)
  have c2: "currentMonitoredConsumer ?s2 = Some (new_monitoredConsumer p\<^sub>2 l\<^sub>2 ?s1)"
    by (rule Register_current)
  have d: "new_monitoredConsumer p\<^sub>2 l\<^sub>2 ?s1 \<noteq> new_monitoredConsumer p\<^sub>1 l\<^sub>1 s"
    by (simp add: new_monitoredConsumer_def Register_next_addr)
  show ?thesis
    unfolding Let_def
    using a r d by (auto simp add: Register_current collect_Some [OF c2])
qed

text \<open>
  Consumer \<open>A\<close> has one dropped metric and \<open>B\<close> none: once \<open>B\<close> is stored after \<open>A\<close>,
  the reporter reports 0.
\<close>

theorem current_last_write_wins_witness:
  "currentMonitoredConsumer
     (setCurrentMonitoredConsumer (Some consumer_B)
        (setCurrentMonitoredConsumer (Some consumer_A)
           (run fake_env
              [Invoke_RegisterGRPCServices (grpc_Server 2) (BatchProcessor 1) (Logger 1),
               Invoke_ConsumeMetrics consumer_A (Context 1) (Metrics 5)]
              (package_init fake_world)))) = Some consumer_B \<and>
   fst (collectMetricsMonitoring fake_env Full []
     (setCurrentMonitoredConsumer (Some consumer_B)
        (setCurrentMonitoredConsumer (Some consumer_A)
           (run fake_env
              [Invoke_RegisterGRPCServices (grpc_Server 2) (BatchProcessor 1) (Logger 1),
               Invoke_ConsumeMetrics consumer_A (Context 1) (Metrics 5)]
              (package_init fake_world))))) =
     [OnRegistryStart, OnRegistryFinished,
      ReportNamespace ''consumer'' [ReportInt ''unsupported_dropped'' 0]] \<and>
   UnsupportedMetricsDropped
     (otel_Stats fake_env (consumer consumer_A)
        (world (run fake_env
              [Invoke_RegisterGRPCServices (grpc_Server 2) (BatchProcessor 1) (Logger 1),
               Invoke_ConsumeMetrics consumer_A (Context 1) (Metrics 5)]
              (package_init fake_world)))) = 1"
proof -
  let ?s = "run fake_env
              [Invoke_RegisterGRPCServices (grpc_Server 2) (BatchProcessor 1) (Logger 1),
               Invoke_ConsumeMetrics consumer_A (Context 1) (Metrics 5)]
              (package_init fake_world)"
  have w0: "world ?s 0 = 1"
    by (simp add: op_defs fake_defs Let_def)
  have w1: "world ?s (Suc 0) = 0"
    by (simp add: op_defs fake_defs Let_def)
  show ?thesis
    using w0 w1
      current_last_write_wins [where B = consumer_B and A = consumer_A and s = ?s
        and E = fake_env and mode = Full and V = "[]"]
    by (simp add: Let_def fake_env_def fake_Stats_def consumer_A_def consumer_B_def)
qed

text \<open>
  C9. \<open>RegisterGRPCServices\<close> stores the consumer it builds in the slot before it
  attempts any registration: the write of the slot is its first effect, the call that
  registers the trace receiver the second. Whatever the registrations return, the slot
  holds the new consumer afterwards.
\<close>

theorem register_stores_first:
  "let c = new_monitoredConsumer p l s;
       ret = fst (RegisterGRPCServices E srv p l s);
       s' = snd (RegisterGRPCServices E srv p l s)
   in currentMonitoredConsumer s' = Some c \<and>
      take 2 (since s s') =
        [Store_current (Some c),
         Call_RegisterTraceReceiver context_Background (trace_New ''otlp'' c) srv
           (fst (otlpreceiver_RegisterTraceReceiver E context_Background (trace_New ''otlp'' c)
                   srv (world s)))]"
  by (simp add: Let_def Register_current since_append [OF Register_effects] split: option.splits)

text \<open>
  On a server that rejects the trace receiver, \<open>RegisterGRPCServices\<close> returns an error
  and the slot, empty before, holds the new consumer.
\<close>

theorem register_stores_first_witness:
  "currentMonitoredConsumer (package_init fake_world) = None \<and>
   fst (RegisterGRPCServices fake_env (grpc_Server 0) (BatchProcessor 1) (Logger 1)
          (package_init fake_world)) =
     Some (withMessage (errorString ''no server'') ''failed to register OTLP trace receiver'') \<and>
   currentMonitoredConsumer
     (snd (RegisterGRPCServices fake_env (grpc_Server 0) (BatchProcessor 1) (Logger 1)
             (package_init fake_world))) = Some consumer_A"
  using register_stores_first [of "BatchProcessor 1" "Logger 1" "package_init fake_world"
      fake_env "grpc_Server 0"]
  by (simp add: Let_def Register_result fake_defs)

subsection \<open>Where the reporter is registered\<close>

text \<open>
  C10. In every state reached from package initialisation, the metrics registry holds
  the four call counters and the reporter, registered under the name \<open>consumer\<close>, and
  the traces registry holds the four call counters and nothing else. What the reporter
  reports is nothing when no consumer is installed and otherwise, after the two markers,
  one namespace \<open>consumer\<close> with the single value \<open>unsupported_dropped\<close>, the
  \<open>UnsupportedMetricsDropped\<close> of the downstream consumer.
\<close>

theorem reporter_only_under_metrics:
  "let s' = run E ops (package_init w)
   in registry_name (gRPCMetricsRegistry s') = ''apm-server.otlp.grpc.metrics'' \<and>
      registry_vars (gRPCMetricsRegistry s') =
        map IntVar monitoringKeys @ [FuncVar ''consumer'' [monitoring_Report]] \<and>
      registry_name (gRPCTracesRegistry s') = ''apm-server.otlp.grpc.traces'' \<and>
      registry_vars (gRPCTracesRegistry s') = map IntVar monitoringKeys \<and>
      fst (collectMetricsMonitoring E mode V s') = V @
        (case currentMonitoredConsumer s' of
           Some c \<Rightarrow>
             [OnRegistryStart, OnRegistryFinished,
              ReportNamespace ''consumer''
                [ReportInt ''unsupported_dropped''
                   (UnsupportedMetricsDropped (otel_Stats E (consumer c) (world s')))]]
         | None \<Rightarrow> [])"
  by (simp add: Let_def registries_run collect_visitor package_init_def
        MonitoringMapForRegistry_def monitoring_NewRegistry_def monitoring_NewFunc_def)

end
